theory Spec2Isabelle
  imports Complex_Main "HOL-Library.Multiset"
begin

section \<open>JavaScript values as the program sees them\<close>

text \<open>
  The program (\<^verbatim>\<open>app.js\<close>) handles values that come out of \<^verbatim>\<open>JSON.parse\<close> (the
  classifier's response, the rows of the parsed review file) and the value
  \<^verbatim>\<open>undefined\<close>, which a missing property reads as. A JSON number is modelled by the real
  number its parsed double denotes: the program only compares scores with \<open>0.5\<close> and
  looks at the sign of a difference of two scores, and on finite doubles both agree with
  the same operations on the reals. Literals beyond the double range (parsed as infinities)
  are outside the model. Strings are ASCII character lists; an object is the association
  list of its own properties.
\<close>

datatype jsval =
    JUndefined
  | JNull
  | JBool bool
  | JNum real
  | JStr string
  | JArr "jsval list"
  | JObj "(string \<times> jsval) list"

datatype js_error = TypeError

text \<open>The result of the abstract operation \<^verbatim>\<open>ToNumber\<close>: a number or \<^verbatim>\<open>NaN\<close>.\<close>

datatype number = NaN | Num real

text \<open>\<^verbatim>\<open>!v\<close> is \<open>\<not> truthy v\<close>: the falsy values are \<^verbatim>\<open>undefined\<close>, \<^verbatim>\<open>null\<close>, \<^verbatim>\<open>false\<close>,
  \<^verbatim>\<open>0\<close> and the empty string.\<close>

fun truthy :: "jsval \<Rightarrow> bool" where
  "truthy JUndefined = False"
| "truthy JNull = False"
| "truthy (JBool b) = b"
| "truthy (JNum r) = (r \<noteq> 0)"
| "truthy (JStr s) = (s \<noteq> [])"
| "truthy (JArr xs) = True"
| "truthy (JObj kvs) = True"

text \<open>
  Reading a property \<^verbatim>\<open>v.k\<close>, for the names the program reads (\<^verbatim>\<open>label\<close>, \<^verbatim>\<open>score\<close>,
  \<^verbatim>\<open>text\<close>, \<^verbatim>\<open>error\<close>), none of which a built-in prototype defines: on \<^verbatim>\<open>null\<close> and
  \<^verbatim>\<open>undefined\<close> the read throws a \<^verbatim>\<open>TypeError\<close>; on an object it is the own property or
  \<^verbatim>\<open>undefined\<close>; on every other value it is \<^verbatim>\<open>undefined\<close>.
\<close>

fun get_prop :: "jsval \<Rightarrow> string \<Rightarrow> js_error + jsval" where
  "get_prop JUndefined k = Inl TypeError"
| "get_prop JNull k = Inl TypeError"
| "get_prop (JObj kvs) k = Inr (case map_of kvs k of None \<Rightarrow> JUndefined | Some v \<Rightarrow> v)"
| "get_prop (JBool b) k = Inr JUndefined"
| "get_prop (JNum r) k = Inr JUndefined"
| "get_prop (JStr s) k = Inr JUndefined"
| "get_prop (JArr xs) k = Inr JUndefined"

text \<open>\<^verbatim>\<open>v ?? d\<close>: the default replaces \<^verbatim>\<open>null\<close> and \<^verbatim>\<open>undefined\<close> only.\<close>

fun nullish_or :: "jsval \<Rightarrow> jsval \<Rightarrow> jsval" where
  "nullish_or JUndefined d = d"
| "nullish_or JNull d = d"
| "nullish_or v d = v"

text \<open>
  \<^verbatim>\<open>ToNumber\<close>, which the subtraction in the sort comparator applies to both operands.
  On the primitive values the language fixes it; on strings, arrays and objects it parses
  text or calls \<^verbatim>\<open>valueOf\<close>/\<^verbatim>\<open>toString\<close> (and may throw), which the model takes as a
  parameter \<open>conv\<close> of the engine. Every theorem below holds for every \<open>conv\<close>.
\<close>

type_synonym coercion = "jsval \<Rightarrow> js_error + number"

fun ToNumber :: "coercion \<Rightarrow> jsval \<Rightarrow> js_error + number" where
  "ToNumber conv JUndefined = Inr NaN"
| "ToNumber conv JNull = Inr (Num 0)"
| "ToNumber conv (JBool b) = Inr (Num (if b then 1 else 0))"
| "ToNumber conv (JNum r) = Inr (Num r)"
| "ToNumber conv (JStr s) = conv (JStr s)"
| "ToNumber conv (JArr xs) = conv (JArr xs)"
| "ToNumber conv (JObj kvs) = conv (JObj kvs)"

fun minus_number :: "number \<Rightarrow> number \<Rightarrow> number" where
  "minus_number (Num a) (Num b) = Num (a - b)"
| "minus_number a b = NaN"

text \<open>\<^verbatim>\<open>String.prototype.toUpperCase\<close> on ASCII text.\<close>

definition upper_char :: "char \<Rightarrow> char" where
  "upper_char c =
     (let n = (of_char c :: nat) in if 97 \<le> n \<and> n \<le> 122 then char_of (n - 32) else c)"

definition toUpperCase :: "string \<Rightarrow> string" where
  "toUpperCase s = map upper_char s"

section \<open>The response normalizer\<close>

subsection \<open>Sorting the candidates\<close>

text \<open>
  \<^verbatim>\<open>(a, b) => (b.score ?? 0) - (a.score ?? 0)\<close>. The operand \<^verbatim>\<open>b.score ?? 0\<close> is
  evaluated first, then \<^verbatim>\<open>a.score ?? 0\<close>, then both are converted to numbers, left one
  first. Reading \<^verbatim>\<open>score\<close> from \<^verbatim>\<open>null\<close> throws.
\<close>

definition score_or_zero :: "jsval \<Rightarrow> js_error + jsval" where
  "score_or_zero v =
     (case get_prop v ''score'' of
        Inl e \<Rightarrow> Inl e
      | Inr s \<Rightarrow> Inr (nullish_or s (JNum 0)))"

definition by_score :: "coercion \<Rightarrow> jsval \<Rightarrow> jsval \<Rightarrow> js_error + number" where
  "by_score conv a b =
     (case score_or_zero b of
        Inl e \<Rightarrow> Inl e
      | Inr sb \<Rightarrow>
          (case score_or_zero a of
             Inl e \<Rightarrow> Inl e
           | Inr sa \<Rightarrow>
               (case ToNumber conv sb of
                  Inl e \<Rightarrow> Inl e
                | Inr nb \<Rightarrow>
                    (case ToNumber conv sa of
                       Inl e \<Rightarrow> Inl e
                     | Inr na \<Rightarrow> Inr (minus_number nb na)))))"

text \<open>
  \<^verbatim>\<open>Array.prototype.sort\<close> with a comparator. The language requires a stable sort and
  leaves the sequence of comparator calls to the engine; a comparator result of \<^verbatim>\<open>NaN\<close>
  counts as \<open>0\<close>. The model is the stable insertion sort: \<open>x\<close> stays in front of \<open>y\<close>
  when the comparator's result for \<open>(x, y)\<close> is not positive. An exception of the
  comparator ends the sort, and the array keeps its elements as they were (the sorted
  values are written back only at the end). Whenever the comparator is a consistent
  ordering, every stable sort gives this result; in a list of two or more elements every
  element is compared at least once by any sort.
\<close>

fun not_positive :: "number \<Rightarrow> bool" where
  "not_positive NaN = True"
| "not_positive (Num r) = (r \<le> 0)"

fun insert_sorted ::
  "(jsval \<Rightarrow> jsval \<Rightarrow> js_error + number) \<Rightarrow> jsval \<Rightarrow> jsval list \<Rightarrow> js_error + jsval list"
where
  "insert_sorted cmp x [] = Inr [x]"
| "insert_sorted cmp x (y # ys) =
     (case cmp x y of
        Inl e \<Rightarrow> Inl e
      | Inr c \<Rightarrow>
          if not_positive c then Inr (x # y # ys)
          else (case insert_sorted cmp x ys of
                  Inl e \<Rightarrow> Inl e
                | Inr zs \<Rightarrow> Inr (y # zs)))"

fun array_sort ::
  "(jsval \<Rightarrow> jsval \<Rightarrow> js_error + number) \<Rightarrow> jsval list \<Rightarrow> js_error + jsval list"
where
  "array_sort cmp [] = Inr []"
| "array_sort cmp (x # xs) =
     (case array_sort cmp xs of
        Inl e \<Rightarrow> Inl e
      | Inr ys \<Rightarrow> insert_sorted cmp x ys)"

subsection \<open>normalizeHfResponse\<close>

record hf_result =
  label :: string
  score :: real
  verdict :: string

text \<open>
  Which array \<^verbatim>\<open>candidates\<close> refers to: the first element of the response (the nested
  shape), the response itself (the flat shape), or none. It is a reference, not a copy:
  the sort below changes the response the caller passed in.
\<close>

datatype shape = Nested | Flat

fun candidates_of :: "jsval \<Rightarrow> (shape \<times> jsval list) option" where
  "candidates_of (JArr (JArr inner # rest)) = Some (Nested, inner)"
| "candidates_of (JArr xs) = Some (Flat, xs)"
| "candidates_of v = None"

fun store_candidates :: "shape \<Rightarrow> jsval list \<Rightarrow> jsval \<Rightarrow> jsval" where
  "store_candidates Nested cs (JArr (c # rest)) = JArr (JArr cs # rest)"
| "store_candidates Flat cs (JArr xs) = JArr cs"
| "store_candidates sh cs v = v"

text \<open>\<^verbatim>\<open>candidates[0]\<close>: the first element, \<^verbatim>\<open>undefined\<close> on an empty array.\<close>

fun first_elem :: "jsval list \<Rightarrow> jsval" where
  "first_elem [] = JUndefined"
| "first_elem (x # xs) = x"

text \<open>\<^verbatim>\<open>typeof top.score === 'number' ? top.score : 0\<close>, for a candidate that is not
  \<^verbatim>\<open>null\<close> or \<^verbatim>\<open>undefined\<close>.\<close>

definition score_of :: "jsval \<Rightarrow> real" where
  "score_of c = (case get_prop c ''score'' of Inr (JNum s) \<Rightarrow> s | _ \<Rightarrow> 0)"

definition decide :: "string \<Rightarrow> real \<Rightarrow> hf_result" where
  "decide l s =
     \<lparr>label = l, score = s,
      verdict = (if l = ''POSITIVE'' \<and> s > 0.5 then ''positive''
                 else if l = ''NEGATIVE'' \<and> s > 0.5 then ''negative''
                 else ''neutral'')\<rparr>"

text \<open>
  The function returns its result (\<open>None\<close> is \<^verbatim>\<open>null\<close>) or throws, together with the
  value its argument has after the call.
\<close>

definition normalizeHfResponse ::
  "coercion \<Rightarrow> jsval \<Rightarrow> (js_error + hf_result option) \<times> jsval"
where
  "normalizeHfResponse conv json =
     (if \<not> truthy json then (Inr None, json)
      else
        (case candidates_of json of
           None \<Rightarrow> (Inr None, json)
         | Some (sh, candidates) \<Rightarrow>
             if candidates = [] then (Inr None, json)
             else
               (case array_sort (by_score conv) candidates of
                  Inl e \<Rightarrow> (Inl e, json)
                | Inr ordered \<Rightarrow>
                    (let json' = store_candidates sh ordered json;
                         top_c = first_elem ordered
                     in if \<not> truthy top_c then (Inr None, json')
                        else
                          (case get_prop top_c ''label'' of
                             Inr (JStr l) \<Rightarrow>
                               (Inr (Some (decide (toUpperCase l) (score_of top_c))), json')
                           | Inr v \<Rightarrow> (Inr None, json')
                           | Inl e \<Rightarrow> (Inl e, json'))))))"


subsection \<open>Notions used to state the properties of the normalizer\<close>

text \<open>
  The number the comparator orders a candidate by: \<^verbatim>\<open>c.score ?? 0\<close> converted to a
  number. A candidate is \<open>keyed\<close> when that is a number (reading the score does not throw
  and the conversion is not \<^verbatim>\<open>NaN\<close>); \<open>rank\<close> is then that number. A candidate with a
  numeric score has its score as rank, one without a score has rank \<open>0\<close>.
\<close>

definition sort_key_of :: "coercion \<Rightarrow> jsval \<Rightarrow> js_error + number" where
  "sort_key_of conv v =
     (case score_or_zero v of Inl e \<Rightarrow> Inl e | Inr s \<Rightarrow> ToNumber conv s)"

definition keyed :: "coercion \<Rightarrow> jsval \<Rightarrow> bool" where
  "keyed conv v = (case sort_key_of conv v of Inr (Num r) \<Rightarrow> True | _ \<Rightarrow> False)"

definition rank :: "coercion \<Rightarrow> jsval \<Rightarrow> real" where
  "rank conv v = (case sort_key_of conv v of Inr (Num r) \<Rightarrow> r | _ \<Rightarrow> 0)"

text \<open>What \<^verbatim>\<open>normalizeHfResponse\<close> makes of the first candidate after the sort (the
  lines after \<^verbatim>\<open>const top = candidates[0]\<close>).\<close>

definition read_top :: "jsval \<Rightarrow> js_error + hf_result option" where
  "read_top t =
     (if \<not> truthy t then Inr None
      else (case get_prop t ''label'' of
              Inr (JStr l) \<Rightarrow> Inr (Some (decide (toUpperCase l) (score_of t)))
            | Inr v \<Rightarrow> Inr None
            | Inl e \<Rightarrow> Inl e))"

text \<open>The object literal \<^verbatim>\<open>{label: l, score: s}\<close>.\<close>

definition candidate :: "string \<Rightarrow> real \<Rightarrow> jsval" where
  "candidate l s = JObj [(''label'', JStr l), (''score'', JNum s)]"

text \<open>A conversion for the examples. It gives \<^verbatim>\<open>NaN\<close>, which is what \<^verbatim>\<open>ToNumber\<close>
  gives for a plain object such as \<^verbatim>\<open>{}\<close> (its string form is not a numeral); no score
  of the examples is a string or an array.\<close>

definition no_conv :: coercion where
  "no_conv v = Inr NaN"

section \<open>The page: dataset store and display\<close>

text \<open>
  \<^verbatim>\<open>STATE\<close> (the reviews and the loaded flag) and the state of the page elements the
  functions write: the status chip, the error box (\<open>None\<close> when hidden), the count badge,
  the \<^verbatim>\<open>aria-busy\<close> markers of the two buttons, the review display and the sentiment
  display. The elements exist, as the source requires of \<^verbatim>\<open>index.html\<close>, so no write to
  them throws. The score line of the sentiment display is kept as the number shown
  (\<open>None\<close> for the dash) rather than as its \<^verbatim>\<open>toFixed(3)\<close> text.
\<close>

record app =
  reviews :: "string list"
  loaded :: bool
  status_mode :: string
  status_text :: string
  error_box :: "string option"
  count_badge :: string
  reload_busy :: bool
  analyze_busy :: bool
  token_input :: string
  review_display :: string
  sentiment_icon :: string
  sentiment_label :: string
  sentiment_score :: "real option"

text \<open>The punctuation outside ASCII that the messages contain, as UTF-8 bytes.\<close>

definition ellipsis :: string where
  "ellipsis = [CHR 0xE2, CHR 0x80, CHR 0xA6]"

definition em_dash :: string where
  "em_dash = [CHR 0xE2, CHR 0x80, CHR 0x94]"

fun string_of_nat :: "nat \<Rightarrow> string" where
  "string_of_nat n =
     (if n < 10 then [''0123456789'' ! n]
      else string_of_nat (n div 10) @ [''0123456789'' ! (n mod 10)])"

text \<open>The text an exception shows as in a message (\<^verbatim>\<open>e?.message || e\<close>); the wording is
  the engine's own, and the error's name stands for it.\<close>

fun error_text :: "js_error \<Rightarrow> string" where
  "error_text TypeError = ''TypeError''"

definition setStatus :: "string \<Rightarrow> string \<Rightarrow> app \<Rightarrow> app" where
  "setStatus mode txt st = st\<lparr>status_mode := mode, status_text := txt\<rparr>"

definition showError :: "string \<Rightarrow> app \<Rightarrow> app" where
  "showError msg st = st\<lparr>error_box := Some msg\<rparr>"

definition clearError :: "app \<Rightarrow> app" where
  "clearError st = st\<lparr>error_box := None\<rparr>"

definition updateCountBadge :: "app \<Rightarrow> app" where
  "updateCountBadge st =
     (let n = length (reviews st)
      in st\<lparr>count_badge :=
              string_of_nat n @ '' review'' @ (if n = 1 then [] else ''s'') @ '' loaded''\<rparr>)"

text \<open>\<^verbatim>\<open>arr[Math.floor(Math.random() * arr.length)]\<close>; the index drawn is the parameter
  \<open>i\<close>, and an index outside the array reads \<^verbatim>\<open>undefined\<close>.\<close>

definition chooseRandom :: "string list \<Rightarrow> nat \<Rightarrow> jsval" where
  "chooseRandom arr i = (if i < length arr then JStr (arr ! i) else JUndefined)"

definition renderSentiment :: "hf_result option \<Rightarrow> app \<Rightarrow> app" where
  "renderSentiment result st =
     (case result of
        None \<Rightarrow>
          st\<lparr>sentiment_icon := ''fa-regular fa-circle-question neutral'',
             sentiment_label := ''Neutral (no result)'',
             sentiment_score := None\<rparr>
      | Some r \<Rightarrow>
          (if verdict r = ''positive'' then
             st\<lparr>sentiment_icon := ''fa-solid fa-thumbs-up positive'',
                sentiment_label := ''Positive'',
                sentiment_score := Some (score r)\<rparr>
           else if verdict r = ''negative'' then
             st\<lparr>sentiment_icon := ''fa-solid fa-thumbs-down negative'',
                sentiment_label := ''Negative'',
                sentiment_score := Some (score r)\<rparr>
           else
             st\<lparr>sentiment_icon := ''fa-regular fa-circle-question neutral'',
                sentiment_label := ''Neutral'',
                sentiment_score := Some (score r)\<rparr>))"

section \<open>Ingestion of the review file\<close>

text \<open>\<^verbatim>\<open>String.prototype.trim\<close> on ASCII text: space, tab, line feed, vertical tab, form
  feed and carriage return are removed from both ends.\<close>

definition is_space :: "char \<Rightarrow> bool" where
  "is_space c = ((of_char c :: nat) \<in> {32, 9, 10, 11, 12, 13})"

definition trim :: "string \<Rightarrow> string" where
  "trim s = rev (dropWhile is_space (rev (dropWhile is_space s)))"

text \<open>\<^verbatim>\<open>v?.k\<close>: \<^verbatim>\<open>undefined\<close> where \<^verbatim>\<open>v.k\<close> would throw.\<close>

definition opt_prop :: "jsval \<Rightarrow> string \<Rightarrow> jsval" where
  "opt_prop v k = (case get_prop v k of Inl e \<Rightarrow> JUndefined | Inr x \<Rightarrow> x)"

text \<open>\<^verbatim>\<open>(r && typeof r.text === 'string') ? r.text.trim() : ''\<close>\<close>

definition row_text :: "jsval \<Rightarrow> string" where
  "row_text r =
     (if truthy r then (case get_prop r ''text'' of Inr (JStr t) \<Rightarrow> trim t | _ \<Rightarrow> [])
      else [])"

text \<open>
  \<^verbatim>\<open>rows.map(...).filter(t => t.length > 0)\<close> for \<^verbatim>\<open>rows = results?.data || []\<close>. Only an
  array has \<^verbatim>\<open>map\<close>: on any other truthy value the call throws a \<^verbatim>\<open>TypeError\<close>.
\<close>

definition extract_texts :: "jsval \<Rightarrow> js_error + string list" where
  "extract_texts results =
     (let d = opt_prop results ''data'';
          rows = (if truthy d then d else JArr [])
      in case rows of
           JArr rs \<Rightarrow> Inr (filter (\<lambda>t. length t > 0) (map row_text rs))
         | _ \<Rightarrow> Inl TypeError)"

text \<open>How the promise a function returned has settled.\<close>

datatype promise = Pending | Fulfilled | Rejected js_error

text \<open>The statements of \<^verbatim>\<open>loadTSV\<close> before it hands the file to the parser.\<close>

definition loadTSV_begin :: "app \<Rightarrow> app" where
  "loadTSV_begin st =
     updateCountBadge
       ((clearError (setStatus [] (''Loading TSV'' @ ellipsis) st))
          \<lparr>reviews := [], loaded := False\<rparr>)"

text \<open>The body of the \<^verbatim>\<open>try\<close> block of the \<^verbatim>\<open>complete\<close> callback, up to the call of
  \<^verbatim>\<open>resolve\<close>: it ends normally with the new state or throws.\<close>

definition complete_try :: "jsval \<Rightarrow> app \<Rightarrow> js_error + app" where
  \<open>complete_try results st =
     (case extract_texts results of
        Inl e \<Rightarrow> Inl e
      | Inr texts \<Rightarrow>
          (let st1 = updateCountBadge (st\<lparr>reviews := texts, loaded := (length texts > 0)\<rparr>)
           in if loaded st1
              then Inr ((setStatus ''ready'' ''TSV loaded'' st1)\<lparr>reload_busy := False\<rparr>)
              else Inr (showError
                          ''No valid "text" column values found in reviews_test.tsv.''
                          (setStatus ''error'' ''No reviews found in TSV'' st1))))\<close>

text \<open>The \<^verbatim>\<open>complete\<close> callback with its \<^verbatim>\<open>catch\<close> block, and the \<^verbatim>\<open>error\<close> callback
  (its argument is the text of \<^verbatim>\<open>err?.message || err\<close>). Each gives the state of the
  promise \<^verbatim>\<open>loadTSV\<close> returned and the new state of the page.\<close>

definition on_complete :: "jsval \<Rightarrow> app \<Rightarrow> promise \<times> app" where
  "on_complete results st =
     (case complete_try results st of
        Inr st' \<Rightarrow> (Fulfilled, st')
      | Inl e \<Rightarrow>
          (Fulfilled,
           showError (''Failed to parse TSV: '' @ error_text e)
             (setStatus ''error'' ''Parse error'' st)))"

definition on_error :: "string \<Rightarrow> app \<Rightarrow> promise \<times> app" where
  "on_error err st =
     (Fulfilled,
      showError (''Failed to load TSV: '' @ err) (setStatus ''error'' ''Load failed'' st))"

text \<open>
  What the call \<^verbatim>\<open>Papa.parse(...)\<close> inside the promise executor leads to: the parser
  calls \<^verbatim>\<open>complete\<close> with its result, it calls \<^verbatim>\<open>error\<close>, or the call itself throws
  (for instance a \<^verbatim>\<open>TypeError\<close> when \<^verbatim>\<open>Papa.parse\<close> is not a function). Nothing guards
  the call, so an exception it throws leaves the executor: the promise is rejected with
  it, neither callback runs, and the page stays as the first statements of \<^verbatim>\<open>loadTSV\<close>
  left it.
\<close>

datatype parse_event = Complete jsval | Failure string | Throws js_error

fun loadTSV :: "parse_event \<Rightarrow> app \<Rightarrow> promise \<times> app" where
  "loadTSV (Complete results) st = on_complete results (loadTSV_begin st)"
| "loadTSV (Failure err) st = on_error err (loadTSV_begin st)"
| "loadTSV (Throws e) st = (Rejected e, loadTSV_begin st)"

section \<open>Analysis of a random review\<close>

text \<open>
  The request sent to the classifier (the endpoint and the content type are fixed): the
  \<^verbatim>\<open>Authorization\<close> header, if any, and the \<^verbatim>\<open>inputs\<close> of the body. What the network
  gives back: \<^verbatim>\<open>fetch\<close> fails with a message, or there is a response with a status and
  a body that \<^verbatim>\<open>resp.json()\<close> parses or rejects with a message.
\<close>

record request =
  authorization :: "string option"
  inputs :: jsval

datatype body = Json jsval | NotJson string

datatype fetch_outcome = NetworkFailure string | Response nat body

definition ok :: "nat \<Rightarrow> bool" where
  "ok status = (200 \<le> status \<and> status \<le> 299)"

text \<open>\<^verbatim>\<open>typeof maybe?.error === 'string' ? ` - ${maybe.error}` : ''\<close> (with an em dash), the
  empty text too when the body is not JSON.\<close>

definition error_detail :: "body \<Rightarrow> string" where
  "error_detail b =
     (case b of
        Json maybe \<Rightarrow>
          (case opt_prop maybe ''error'' of
             JStr e \<Rightarrow> '' '' @ em_dash @ '' '' @ e
           | _ \<Rightarrow> [])
      | NotJson m \<Rightarrow> [])"

definition status_message :: "nat \<Rightarrow> string \<Rightarrow> string" where
  "status_message status detail =
     (if status = 401 then
        ''Unauthorized (401). Invalid or missing token'' @ detail @
        ''. You can try without a token or provide a valid one.''
      else if status = 429 then
        ''Rate limited (429). Please wait and try again'' @ detail @
        ''. Supplying your token may help.''
      else if status = 503 then
        ''Model loading (503). The model is warming up. Please retry in a moment'' @
        detail @ ''.''
      else ''API error ('' @ string_of_nat status @ '').'' @ detail)"

definition make_request :: "string \<Rightarrow> jsval \<Rightarrow> request" where
  "make_request token_value txt =
     (let token = trim token_value
      in \<lparr>authorization = (if token \<noteq> [] then Some (''Bearer '' @ token) else None),
          inputs = txt\<rparr>)"

text \<open>
  \<^verbatim>\<open>analyzeRandom\<close>, given the index drawn and what the network gives back to the one
  request: how its promise settles (an exception that nothing catches rejects it), the
  requests it issued, and the new state of the page.
\<close>

definition analyzeRandom ::
  "coercion \<Rightarrow> nat \<Rightarrow> fetch_outcome \<Rightarrow> app \<Rightarrow> promise \<times> request list \<times> app"
where
  \<open>analyzeRandom conv i net st0 =
     (let st = clearError st0
      in if \<not> loaded st \<or> length (reviews st) = 0 then
           (Fulfilled, [],
            showError
              ''Data not loaded. Click "Reload TSV" and ensure reviews_test.tsv is present with a "text" column.''
              st)
         else
           (let st1 = st\<lparr>analyze_busy := True\<rparr>;
                txt = chooseRandom (reviews st1) i;
                st2 = renderSentiment None
                        (st1\<lparr>review_display :=
                               (case txt of JStr t \<Rightarrow> (if t \<noteq> [] then t else ''(Empty review)'')
                                | _ \<Rightarrow> ''(Empty review)'')\<rparr>);
                req = make_request (token_input st2) txt
            in case net of
                 NetworkFailure m \<Rightarrow>
                   (Fulfilled, [req],
                    showError (''Network error: '' @ m) (st2\<lparr>analyze_busy := False\<rparr>))
               | Response status b \<Rightarrow>
                   if \<not> ok status then
                     (Fulfilled, [req],
                      showError (status_message status (error_detail b))
                        (st2\<lparr>analyze_busy := False\<rparr>))
                   else
                     (case b of
                        NotJson m \<Rightarrow>
                          (Fulfilled, [req],
                           showError (''Invalid JSON from API: '' @ m)
                             (st2\<lparr>analyze_busy := False\<rparr>))
                      | Json data \<Rightarrow>
                          (case fst (normalizeHfResponse conv data) of
                             Inl e \<Rightarrow> (Rejected e, [req], st2)
                           | Inr result \<Rightarrow>
                               (Fulfilled, [req],
                                (renderSentiment result st2)\<lparr>analyze_busy := False\<rparr>)))))\<close>


section \<open>Notions and examples used to state the properties of the page\<close>

text \<open>A row's \<^verbatim>\<open>text\<close> field, if the row has one and it is a string.\<close>

definition text_field :: "jsval \<Rightarrow> string option" where
  "text_field r =
     (case r of
        JObj kvs \<Rightarrow> (case map_of kvs ''text'' of Some (JStr t) \<Rightarrow> Some t | _ \<Rightarrow> None)
      | _ \<Rightarrow> None)"

text \<open>The survivors of a row set: the string \<^verbatim>\<open>text\<close> fields, trimmed, without the
  empty ones, in the order of the rows.\<close>

definition survivors :: "jsval list \<Rightarrow> string list" where
  "survivors rows = filter (\<lambda>t. t \<noteq> []) (map trim (List.map_filter text_field rows))"

text \<open>The page before anything ran (\<^verbatim>\<open>STATE = { reviews: [], loaded: false }\<close>), the rows
  \<^verbatim>\<open>[{text: " good "}, {text: ""}, {text: 42}, {text: "bad movie"}]\<close>, and the page after
  loading them.\<close>

definition initial_page :: app where
  "initial_page =
     \<lparr>reviews = [], loaded = False, status_mode = [], status_text = [],
      error_box = None, count_badge = [], reload_busy = False, analyze_busy = False,
      token_input = [], review_display = [], sentiment_icon = [], sentiment_label = [],
      sentiment_score = None\<rparr>"

definition example_rows :: "jsval list" where
  "example_rows =
     [JObj [(''text'', JStr '' good '')], JObj [(''text'', JStr [])],
      JObj [(''text'', JNum 42)], JObj [(''text'', JStr ''bad movie'')]]"

definition loaded_page :: app where
  "loaded_page = snd (loadTSV (Complete (JObj [(''data'', JArr example_rows)])) initial_page)"


section \<open>Properties of the normalizer\<close>

subsection \<open>The sort on keyed candidates\<close>

lemma by_score_keyed:
  "keyed conv a \<Longrightarrow> keyed conv b \<Longrightarrow>
   by_score conv a b = Inr (Num (rank conv b - rank conv a))"
  by (auto simp: keyed_def rank_def sort_key_of_def by_score_def
      split: sum.splits number.splits)

lemma insert_sorted_keyed:
  "keyed conv x \<Longrightarrow> \<forall>y \<in> set ys. keyed conv y \<Longrightarrow>
   insert_sorted (by_score conv) x ys = Inr (insort_key (\<lambda>v. - rank conv v) x ys)"
  by (induction ys) (auto simp: by_score_keyed)

text \<open>On keyed candidates the sort is the stable sort by descending rank.\<close>

lemma array_sort_keyed:
  "\<forall>y \<in> set cs. keyed conv y \<Longrightarrow>
   array_sort (by_score conv) cs = Inr (sort_key (\<lambda>v. - rank conv v) cs)"
  by (induction cs) (auto simp: insert_sorted_keyed)

text \<open>Any list that is a permutation of the candidates, in descending order of rank and
  with the candidates of equal rank in their original order, is the result of the sort:
  on keyed candidates the model agrees with every stable sort.\<close>

lemma any_stable_sort_agrees:
  assumes "\<forall>y \<in> set cs. keyed conv y"
    and "mset ys = mset cs"
    and "\<And>k. k \<in> set ys \<Longrightarrow>
           filter (\<lambda>x. rank conv x = rank conv k) ys =
           filter (\<lambda>x. rank conv x = rank conv k) cs"
    and "sorted (map (\<lambda>v. - rank conv v) ys)"
  shows "array_sort (by_score conv) cs = Inr ys"
proof -
  have "sort_key (\<lambda>v. - rank conv v) cs = ys"
  proof (rule properties_for_sort_key)
    show "mset ys = mset cs" by fact
    show "sorted (map (\<lambda>v. - rank conv v) ys)" by fact
    fix k assume "k \<in> set ys"
    from assms(3) [OF this]
    show "filter (\<lambda>x. - rank conv k = - rank conv x) ys =
          filter (\<lambda>x. - rank conv k = - rank conv x) cs"
      by (simp add: eq_commute)
  qed
  with array_sort_keyed [OF assms(1)] show ?thesis by simp
qed

lemma keyed_numeric:
  "get_prop v ''score'' = Inr (JNum s) \<Longrightarrow> keyed conv v \<and> rank conv v = s"
  by (simp add: keyed_def rank_def sort_key_of_def score_or_zero_def)

lemma keyed_missing:
  "get_prop v ''score'' = Inr JUndefined \<or> get_prop v ''score'' = Inr JNull \<Longrightarrow>
   keyed conv v \<and> rank conv v = 0"
  by (auto simp add: keyed_def rank_def sort_key_of_def score_or_zero_def)

lemma candidate_props:
  "get_prop (candidate l s) ''label'' = Inr (JStr l)"
  "get_prop (candidate l s) ''score'' = Inr (JNum s)"
  by (simp_all add: candidate_def)

lemma candidate_keyed: "keyed conv (candidate l s)" "rank conv (candidate l s) = s"
  using keyed_numeric [OF candidate_props(2)] by simp_all

text \<open>The first element of a stable sort is the first of the elements with the least
  key.\<close>

lemma hd_sort_key:
  fixes f :: "'a \<Rightarrow> real"
  assumes "xs \<noteq> []"
  shows "hd (sort_key f xs) = hd (filter (\<lambda>x. f x = Min (f ` set xs)) xs)"
proof -
  let ?s = "sort_key f xs"
  from assms have "?s \<noteq> []" by (metis length_0_conv length_sort)
  then obtain h t where s: "?s = h # t" by (cases ?s) auto
  have srt: "sorted (map f ?s)" by (rule sorted_sort_key)
  have hin: "h \<in> set xs" using s by (metis list.set_intros(1) set_sort)
  have "\<forall>y \<in> set xs. f h \<le> f y"
  proof
    fix y assume "y \<in> set xs"
    then have "y \<in> set ?s" by simp
    with s srt show "f h \<le> f y" by auto
  qed
  with hin have m: "Min (f ` set xs) = f h"
    by (intro Min_eqI) auto
  have "filter (\<lambda>x. f x = f h) ?s = filter (\<lambda>x. f x = f h) xs"
    by (rule sort_key_stable)
  with s have "hd (filter (\<lambda>x. f x = f h) xs) = h"
    by (metis (mono_tags, lifting) filter.simps(2) list.sel(1))
  with s m show ?thesis by simp
qed


lemma insert_sorted_mset:
  "insert_sorted cmp x ys = Inr zs \<Longrightarrow> mset zs = add_mset x (mset ys)"
  by (induction ys arbitrary: zs) (auto split: sum.splits if_splits)

lemma array_sort_mset: "array_sort cmp xs = Inr ys \<Longrightarrow> mset ys = mset xs"
  by (induction xs arbitrary: ys) (auto split: sum.splits dest: insert_sorted_mset)

lemma insert_sorted_length:
  "insert_sorted cmp x ys = Inr zs \<Longrightarrow> length zs = Suc (length ys)"
  by (induction ys arbitrary: zs) (auto split: sum.splits if_splits)

lemma array_sort_length: "array_sort cmp xs = Inr ys \<Longrightarrow> length ys = length xs"
  by (induction xs arbitrary: ys) (auto split: sum.splits dest: insert_sorted_length)

subsection \<open>The comparator on \<^verbatim>\<open>null\<close>\<close>

text \<open>The comparator reads \<^verbatim>\<open>score\<close> from both arguments, so it throws as soon as one
  of them is \<^verbatim>\<open>null\<close>. A sort therefore returns on a list with a \<^verbatim>\<open>null\<close> entry only
  when that entry is alone (no comparison is made).\<close>

lemma by_score_null:
  "by_score conv JNull b = Inl TypeError" "by_score conv a JNull = Inl TypeError"
  by (auto simp: by_score_def score_or_zero_def split: sum.splits)
     (metis js_error.exhaust)+

lemma sorted_with_null_is_single:
  "JNull \<in> set xs \<Longrightarrow> array_sort (by_score conv) xs = Inr ys \<Longrightarrow> xs = [JNull]"
proof (induction xs arbitrary: ys)
  case Nil
  then show ?case by simp
next
  case (Cons x xs)
  from Cons.prems(2) obtain ys' where
    tl: "array_sort (by_score conv) xs = Inr ys'" and
    ins: "insert_sorted (by_score conv) x ys' = Inr ys"
    by (auto split: sum.splits)
  show ?case
  proof (cases "JNull \<in> set xs")
    case True
    with Cons.IH tl have "xs = [JNull]" by blast
    with tl have "ys' = [JNull]" by simp
    with ins show ?thesis by (simp add: by_score_null)
  next
    case False
    with Cons.prems(1) have x: "x = JNull" by simp
    show ?thesis
    proof (cases ys')
      case Nil
      with array_sort_length [OF tl] x show ?thesis by simp
    next
      case (Cons y zs)
      with ins x show ?thesis by (simp add: by_score_null)
    qed
  qed
qed

lemma sort_throws_on_null:
  assumes "2 \<le> length cs" and "JNull \<in> set cs"
  shows "array_sort (by_score conv) cs = Inl TypeError"
proof (cases "array_sort (by_score conv) cs")
  case (Inl e)
  then show ?thesis by (cases e) simp
next
  case (Inr ys)
  with assms(2) have "cs = [JNull]" by (rule sorted_with_null_is_single)
  with assms(1) show ?thesis by simp
qed

subsection \<open>The result is read off the first candidate after the sort\<close>

lemma candidates_of_truthy: "candidates_of json = Some p \<Longrightarrow> truthy json"
  by (cases json) auto

lemma store_candidates_same:
  "candidates_of json = Some (sh, cs) \<Longrightarrow> store_candidates sh cs json = json"
  by (induction json rule: candidates_of.induct) auto

lemma normalize_fst_top:
  assumes "candidates_of json = Some (sh, cs)"
    and "array_sort (by_score conv) cs = Inr (t # rest)"
  shows "fst (normalizeHfResponse conv json) = read_top t"
proof -
  from assms(2) have "cs \<noteq> []" by (cases cs) auto
  moreover from assms(1) have "truthy json" by (rule candidates_of_truthy)
  ultimately show ?thesis using assms
    by (auto simp: normalizeHfResponse_def read_top_def Let_def
        split: sum.splits jsval.splits)
qed

lemma normalize_keyed:
  assumes "candidates_of json = Some (sh, cs)" and "cs \<noteq> []"
    and "\<forall>v \<in> set cs. keyed conv v"
  shows "fst (normalizeHfResponse conv json) =
         read_top (hd (sort_key (\<lambda>v. - rank conv v) cs))"
proof -
  let ?s = "sort_key (\<lambda>v. - rank conv v) cs"
  have "?s \<noteq> []" using assms(2) by (metis length_0_conv length_sort)
  then obtain t rest where s: "?s = t # rest" by (cases ?s) auto
  with array_sort_keyed [OF assms(3)]
  have "array_sort (by_score conv) cs = Inr (t # rest)" by simp
  from normalize_fst_top [OF assms(1) this] s show ?thesis by simp
qed

text \<open>On keyed candidates the result is read off the first of the candidates with the
  greatest rank.\<close>

lemma result_is_read_off_top_scored:
  assumes "candidates_of json = Some (sh, cs)" and "cs \<noteq> []"
    and "\<forall>v \<in> set cs. keyed conv v"
  shows "fst (normalizeHfResponse conv json) =
         read_top (hd (filter (\<lambda>v. rank conv v = Max (rank conv ` set cs)) cs))"
proof -
  let ?f = "\<lambda>v. - rank conv v"
  have fin: "finite (rank conv ` set cs)" "rank conv ` set cs \<noteq> {}"
    using assms(2) by auto
  have "Min (?f ` set cs) = - Max (rank conv ` set cs)"
  proof (rule Min_eqI)
    show "finite (?f ` set cs)" by simp
    show "\<And>y. y \<in> ?f ` set cs \<Longrightarrow> - Max (rank conv ` set cs) \<le> y"
      using fin by (auto simp: Max_ge)
    from Max_in [OF fin] show "- Max (rank conv ` set cs) \<in> ?f ` set cs" by auto
  qed
  then have "filter (\<lambda>x. ?f x = Min (?f ` set cs)) cs =
             filter (\<lambda>v. rank conv v = Max (rank conv ` set cs)) cs"
    by simp
  with normalize_keyed [OF assms] hd_sort_key [OF assms(2), of ?f] show ?thesis by simp
qed

lemma normalize_throws:
  assumes "candidates_of json = Some (sh, cs)" and "2 \<le> length cs" and "JNull \<in> set cs"
  shows "normalizeHfResponse conv json = (Inl TypeError, json)"
proof -
  from assms(2) have "cs \<noteq> []" by auto
  with assms(1) candidates_of_truthy [OF assms(1)] sort_throws_on_null [OF assms(2,3)]
  show ?thesis by (simp add: normalizeHfResponse_def)
qed

lemma toUpperCase_positive: "toUpperCase ''positive'' = ''POSITIVE''"
  by code_simp



subsection \<open>The decision rule\<close>

text \<open>
  C1. Whenever the top candidate (the first one after the sort) has a string label \<open>l\<close>
  and a numeric score \<open>s\<close>, the normalizer returns the uppercased label, the score and the
  verdict of the strict rule: \<open>positive\<close> for \<open>POSITIVE\<close> with \<open>s > 0.5\<close>, otherwise
  \<open>negative\<close> for \<open>NEGATIVE\<close> with \<open>s > 0.5\<close>, otherwise \<open>neutral\<close>. A score of exactly
  \<open>0.5\<close> gives \<open>neutral\<close>, whatever the label.
\<close>

theorem verdict_follows_strict_threshold:
  assumes "candidates_of json = Some (sh, cs)"
    and "array_sort (by_score conv) cs = Inr (t # rest)"
    and "get_prop t ''label'' = Inr (JStr l)"
    and "get_prop t ''score'' = Inr (JNum s)"
  shows "fst (normalizeHfResponse conv json) =
           Inr (Some \<lparr>label = toUpperCase l, score = s,
                      verdict =
                        (if toUpperCase l = ''POSITIVE'' \<and> s > 0.5 then ''positive''
                         else if toUpperCase l = ''NEGATIVE'' \<and> s > 0.5 then ''negative''
                         else ''neutral'')\<rparr>) \<and>
         (s = 0.5 \<longrightarrow>
            fst (normalizeHfResponse conv json) =
              Inr (Some \<lparr>label = toUpperCase l, score = s, verdict = ''neutral''\<rparr>))"
proof -
  from assms(3) have "truthy t" by (cases t) auto
  with assms(3,4) have "read_top t = Inr (Some (decide (toUpperCase l) s))"
    by (simp add: read_top_def score_of_def)
  with normalize_fst_top [OF assms(1,2)] show ?thesis
    by (simp add: decide_def)
qed

theorem verdict_follows_strict_threshold_witness:
  "fst (normalizeHfResponse no_conv (JArr [JArr [candidate ''positive'' 0.5]])) =
     Inr (Some \<lparr>label = ''POSITIVE'', score = 0.5, verdict = ''neutral''\<rparr>)"
  using verdict_follows_strict_threshold
          [of "JArr [JArr [candidate ''positive'' 0.5]]" Nested "[candidate ''positive'' 0.5]"
              no_conv "candidate ''positive'' 0.5" "[]" "''positive''" "0.5"]
  by (simp add: candidate_props toUpperCase_positive)


subsection \<open>Only the top-scored candidate counts\<close>




subsection \<open>The flat shape\<close>



subsection \<open>Inputs without a usable candidate\<close>

text \<open>The normalizer returns \<^verbatim>\<open>null\<close> on a falsy input, on an empty list, on a list whose
  first element is an empty list, on an input that is not a list, and whenever the sort
  returns and the first candidate after it is falsy or has no string label; the last
  holds in particular for every list of one such candidate.\<close>

lemma normalize_null_cases:
  "\<not> truthy json \<Longrightarrow> fst (normalizeHfResponse conv json) = Inr None"
  "fst (normalizeHfResponse conv JNull) = Inr None"
  "fst (normalizeHfResponse conv JUndefined) = Inr None"
  "fst (normalizeHfResponse conv (JArr [])) = Inr None"
  "fst (normalizeHfResponse conv (JArr (JArr [] # others))) = Inr None"
  "candidates_of json = None \<Longrightarrow> fst (normalizeHfResponse conv json) = Inr None"
  "candidates_of json = Some (sh, cs) \<Longrightarrow>
     array_sort (by_score conv) cs = Inr (t # rest) \<Longrightarrow>
     \<not> truthy t \<or> (\<forall>l. get_prop t ''label'' \<noteq> Inr (JStr l)) \<Longrightarrow>
     fst (normalizeHfResponse conv json) = Inr None"
  "candidates_of json = Some (sh, [c]) \<Longrightarrow>
     \<not> truthy c \<or> (\<forall>l. get_prop c ''label'' \<noteq> Inr (JStr l)) \<Longrightarrow>
     fst (normalizeHfResponse conv json) = Inr None"
proof -
  show "\<not> truthy json \<Longrightarrow> fst (normalizeHfResponse conv json) = Inr None"
    by (simp add: normalizeHfResponse_def)
  show "fst (normalizeHfResponse conv JNull) = Inr None"
    "fst (normalizeHfResponse conv JUndefined) = Inr None"
    "fst (normalizeHfResponse conv (JArr [])) = Inr None"
    "fst (normalizeHfResponse conv (JArr (JArr [] # others))) = Inr None"
    by (simp_all add: normalizeHfResponse_def)
  show "candidates_of json = None \<Longrightarrow> fst (normalizeHfResponse conv json) = Inr None"
    by (simp add: normalizeHfResponse_def)
  have none: "read_top v = Inr None"
    if "\<not> truthy v \<or> (\<forall>l. get_prop v ''label'' \<noteq> Inr (JStr l))" for v
    using that
    by (cases v) (auto simp: read_top_def split: sum.splits jsval.splits option.splits)
  show "candidates_of json = Some (sh, cs) \<Longrightarrow>
     array_sort (by_score conv) cs = Inr (t # rest) \<Longrightarrow>
     \<not> truthy t \<or> (\<forall>l. get_prop t ''label'' \<noteq> Inr (JStr l)) \<Longrightarrow>
     fst (normalizeHfResponse conv json) = Inr None"
    using normalize_fst_top [of json sh cs conv t rest] none [of t] by simp
  show "candidates_of json = Some (sh, [c]) \<Longrightarrow>
     \<not> truthy c \<or> (\<forall>l. get_prop c ''label'' \<noteq> Inr (JStr l)) \<Longrightarrow>
     fst (normalizeHfResponse conv json) = Inr None"
    using normalize_fst_top [of json sh "[c]" conv c "[]"] none [of c] by simp
qed

text \<open>
  C3. On \<^verbatim>\<open>[[null, null]]\<close>, an input whose candidates are all absent, the normalizer
  does not return \<^verbatim>\<open>null\<close>: the sort comparator reads \<^verbatim>\<open>score\<close> from \<^verbatim>\<open>null\<close> and a
  \<^verbatim>\<open>TypeError\<close> is thrown. On \<^verbatim>\<open>[[null]]\<close>, where the sort compares nothing, it returns
  \<^verbatim>\<open>null\<close>.
\<close>

theorem normalize_throws_for_two_nulls:
  "fst (normalizeHfResponse conv (JArr [JArr [JNull, JNull]])) = Inl TypeError \<and>
   fst (normalizeHfResponse conv (JArr [JArr [JNull]])) = Inr None"
  by (simp add: normalizeHfResponse_def by_score_def score_or_zero_def)

subsection \<open>Exceptions\<close>

text \<open>
  C6. The normalizer is not total: on every input whose candidate list has two or more
  entries, one of them \<^verbatim>\<open>null\<close>, it throws a \<^verbatim>\<open>TypeError\<close> (and leaves its argument as
  it was). \<^verbatim>\<open>[[null, {label: "POSITIVE", score: 0.9}]]\<close> is such an input.
\<close>

theorem normalize_throws_on_null_entry:
  assumes "candidates_of json = Some (sh, cs)" and "2 \<le> length cs" and "JNull \<in> set cs"
  shows "normalizeHfResponse conv json = (Inl TypeError, json)"
  using assms by (rule normalize_throws)

theorem normalize_throws_on_null_entry_witness:
  "normalizeHfResponse no_conv (JArr [JArr [JNull, candidate ''POSITIVE'' 0.9]]) =
     (Inl TypeError, JArr [JArr [JNull, candidate ''POSITIVE'' 0.9]])"
  using normalize_throws_on_null_entry
          [of "JArr [JArr [JNull, candidate ''POSITIVE'' 0.9]]" Nested
              "[JNull, candidate ''POSITIVE'' 0.9]" no_conv]
  by simp

subsection \<open>The effect on the argument\<close>

text \<open>
  C5 (amended). The normalizer has one effect on its argument: the candidate list the
  argument holds (its first element in the nested shape, the argument itself in the flat
  shape) is reordered in place. After the call the argument is the one passed in with its
  candidate list replaced by a permutation of that list, and nothing else changed; an
  argument that holds no candidate list is unchanged. The value returned is a function of
  the input alone.
\<close>

theorem normalize_only_permutes_candidates:
  "(case candidates_of json of
      None \<Rightarrow> snd (normalizeHfResponse conv json) = json
    | Some (sh, cs) \<Rightarrow>
        (\<exists>cs'. mset cs' = mset cs \<and>
               snd (normalizeHfResponse conv json) = store_candidates sh cs' json))"
proof (cases "candidates_of json")
  case None
  then show ?thesis by (simp add: normalizeHfResponse_def)
next
  case (Some p)
  obtain sh cs where p: "p = (sh, cs)" by (cases p)
  have same: "store_candidates sh cs json = json"
    using Some p by (simp add: store_candidates_same)
  show ?thesis
  proof (cases "array_sort (by_score conv) cs")
    case (Inl e)
    with Some p same have "snd (normalizeHfResponse conv json) = store_candidates sh cs json"
      by (simp add: normalizeHfResponse_def)
    with Some p show ?thesis by auto
  next
    case (Inr ys)
    have "snd (normalizeHfResponse conv json) = store_candidates sh ys json \<or>
          snd (normalizeHfResponse conv json) = store_candidates sh cs json"
      using Some p Inr same
      by (auto simp: normalizeHfResponse_def Let_def split: sum.splits jsval.splits)
    with array_sort_mset [OF Inr] Some p show ?thesis by auto
  qed
qed

text \<open>The argument \<^verbatim>\<open>[[{label: "NEGATIVE", score: 0.1}, {label: "POSITIVE", score: 0.9}]]\<close>
  is not left unchanged: after the call its two candidates have changed places.\<close>

theorem normalize_reorders_argument:
  "snd (normalizeHfResponse no_conv
          (JArr [JArr [candidate ''NEGATIVE'' 0.1, candidate ''POSITIVE'' 0.9]])) =
     JArr [JArr [candidate ''POSITIVE'' 0.9, candidate ''NEGATIVE'' 0.1]] \<and>
   snd (normalizeHfResponse no_conv
          (JArr [JArr [candidate ''NEGATIVE'' 0.1, candidate ''POSITIVE'' 0.9]])) \<noteq>
     JArr [JArr [candidate ''NEGATIVE'' 0.1, candidate ''POSITIVE'' 0.9]]"
  by (simp add: normalizeHfResponse_def by_score_keyed candidate_keyed candidate_props Let_def)
     (simp add: candidate_def)

section \<open>Properties of the ingestion\<close>

lemma row_text_field:
  "row_text r = (case text_field r of Some t \<Rightarrow> trim t | None \<Rightarrow> [])"
  by (cases r) (auto simp: row_text_def text_field_def split: option.splits jsval.splits)

lemma texts_survivors:
  "filter (\<lambda>t. length t > 0) (map row_text rows) = survivors rows"
  by (induction rows)
     (auto simp: survivors_def row_text_field List.map_filter_simps split: option.splits)

lemma extract_texts_rows:
  "opt_prop results ''data'' = JArr rows \<Longrightarrow> extract_texts results = Inr (survivors rows)"
  using texts_survivors [of rows] by (simp add: extract_texts_def)

lemma survivors_example: "survivors example_rows = [''good'', ''bad movie'']"
  by (simp add: survivors_def example_rows_def text_field_def List.map_filter_simps
      trim_def is_space_def)

text \<open>
  C7. When the parser completes with the row set \<open>rows\<close>, the reviews stored are the
  survivors of \<open>rows\<close> (the string \<^verbatim>\<open>text\<close> fields, trimmed, the empty ones dropped, in
  file order), and the loaded flag is set exactly when there is a survivor. The rows
  \<^verbatim>\<open>[{text: " good "}, {text: ""}, {text: 42}, {text: "bad movie"}]\<close> give the reviews
  \<open>good\<close> and \<open>bad movie\<close> and the flag set.
\<close>

theorem ingestion_keeps_trimmed_texts:
  assumes "opt_prop results ''data'' = JArr rows"
  shows "reviews (snd (loadTSV (Complete results) st)) = survivors rows \<and>
         loaded (snd (loadTSV (Complete results) st)) = (survivors rows \<noteq> [])"
  using assms
  by (simp add: on_complete_def complete_try_def extract_texts_rows Let_def
      updateCountBadge_def setStatus_def showError_def)

theorem ingestion_keeps_trimmed_texts_witness:
  "reviews (snd (loadTSV (Complete (JObj [(''data'', JArr example_rows)])) initial_page)) =
     [''good'', ''bad movie''] \<and>
   loaded (snd (loadTSV (Complete (JObj [(''data'', JArr example_rows)])) initial_page)) = True"
  using ingestion_keeps_trimmed_texts
          [of "JObj [(''data'', JArr example_rows)]" example_rows initial_page]
  by (simp add: opt_prop_def survivors_example)


text \<open>When the parser calls one of the two callbacks, the promise is fulfilled, and each
  failure is reported in the status chip and in the error box: a transport or parse
  failure, a result whose processing throws, and a result without a surviving row. A
  result with a surviving row is stored, the status is ready and no error is shown.\<close>

lemma loadTSV_on_failure:
  "loadTSV (Failure err) st =
     (Fulfilled,
      (loadTSV_begin st)\<lparr>status_mode := ''error'', status_text := ''Load failed'',
                          error_box := Some (''Failed to load TSV: '' @ err)\<rparr>)"
  by (simp add: on_error_def showError_def setStatus_def)

lemma loadTSV_on_throwing_result:
  "extract_texts results = Inl e \<Longrightarrow>
   loadTSV (Complete results) st =
     (Fulfilled,
      (loadTSV_begin st)\<lparr>status_mode := ''error'', status_text := ''Parse error'',
                          error_box := Some (''Failed to parse TSV: '' @ error_text e)\<rparr>)"
  by (simp add: on_complete_def complete_try_def showError_def setStatus_def)

lemma loadTSV_on_no_survivor:
  \<open>extract_texts results = Inr [] \<Longrightarrow>
   loadTSV (Complete results) st =
     (Fulfilled,
      (loadTSV_begin st)\<lparr>reviews := [], loaded := False,
                          count_badge := ''0 reviews loaded'',
                          status_mode := ''error'', status_text := ''No reviews found in TSV'',
                          error_box :=
                            Some ''No valid "text" column values found in reviews_test.tsv.''\<rparr>)\<close>
  by (simp add: on_complete_def complete_try_def showError_def setStatus_def
      updateCountBadge_def Let_def)

lemma loadTSV_on_rows:
  "extract_texts results = Inr texts \<Longrightarrow> texts \<noteq> [] \<Longrightarrow>
   loadTSV (Complete results) st =
     (Fulfilled,
      (loadTSV_begin st)\<lparr>reviews := texts, loaded := True,
                          count_badge :=
                            string_of_nat (length texts) @ '' review'' @
                            (if length texts = 1 then [] else ''s'') @ '' loaded'',
                          status_mode := ''ready'', status_text := ''TSV loaded'',
                          reload_busy := False\<rparr>)"
  by (simp add: on_complete_def complete_try_def setStatus_def updateCountBadge_def Let_def)

lemma loadTSV_callbacks_resolve:
  "fst (loadTSV (Complete results) st) = Fulfilled"
  "fst (loadTSV (Failure err) st) = Fulfilled"
  by (simp_all add: on_complete_def on_error_def split: sum.splits)


section \<open>Properties of the analysis\<close>

lemma loaded_page_eq:
  "loaded_page =
     initial_page\<lparr>reviews := [''good'', ''bad movie''], loaded := True,
                  status_mode := ''ready'', status_text := ''TSV loaded'',
                  count_badge := ''2 reviews loaded''\<rparr>"
  by (simp add: loaded_page_def opt_prop_def on_complete_def complete_try_def
      extract_texts_rows survivors_example loadTSV_begin_def Let_def updateCountBadge_def
      setStatus_def clearError_def initial_page_def)

lemma loaded_page_store:
  "loaded loaded_page" "reviews loaded_page = [''good'', ''bad movie'']"
  "analyze_busy loaded_page = False"
  by (simp_all add: loaded_page_eq initial_page_def)

text \<open>
  C8. When the store is not loaded or holds no review, \<^verbatim>\<open>analyzeRandom\<close> shows the error
  that tells the user to reload, returns without issuing a request, and changes nothing
  but the error box: the reviews and the loaded flag are as before.
\<close>

theorem analyze_requires_loaded_data:
  assumes "\<not> loaded st \<or> reviews st = []"
  shows \<open>fst (analyzeRandom conv i net st) = Fulfilled \<and>
         fst (snd (analyzeRandom conv i net st)) = [] \<and>
         snd (snd (analyzeRandom conv i net st)) =
           st\<lparr>error_box := Some ''Data not loaded. Click "Reload TSV" and ensure reviews_test.tsv is present with a "text" column.''\<rparr> \<and>
         reviews (snd (snd (analyzeRandom conv i net st))) = reviews st \<and>
         loaded (snd (snd (analyzeRandom conv i net st))) = loaded st\<close>
  using assms by (auto simp: analyzeRandom_def Let_def clearError_def showError_def)

theorem analyze_requires_loaded_data_witness:
  \<open>fst (analyzeRandom no_conv 0
          (Response 200 (Json (JArr [JArr [candidate ''POSITIVE'' 0.9]]))) initial_page) =
     Fulfilled \<and>
   fst (snd (analyzeRandom no_conv 0
          (Response 200 (Json (JArr [JArr [candidate ''POSITIVE'' 0.9]]))) initial_page)) = [] \<and>
   snd (snd (analyzeRandom no_conv 0
          (Response 200 (Json (JArr [JArr [candidate ''POSITIVE'' 0.9]]))) initial_page)) =
     initial_page\<lparr>error_box := Some ''Data not loaded. Click "Reload TSV" and ensure reviews_test.tsv is present with a "text" column.''\<rparr>\<close>
  using analyze_requires_loaded_data
          [of initial_page no_conv 0
              "Response 200 (Json (JArr [JArr [candidate ''POSITIVE'' 0.9]]))"]
  by (simp add: initial_page_def)

text \<open>Every call on a loaded store that returns normally has cleared the busy marker: after
  a network failure, a status outside 200 to 299, a body that is not JSON, and a result
  rendered. The only call that does not return normally is one in which the normalizer
  throws.\<close>

lemma analyze_clears_busy_when_fulfilled:
  assumes "loaded st" and "reviews st \<noteq> []"
    and "fst (analyzeRandom conv i net st) = Fulfilled"
  shows "analyze_busy (snd (snd (analyzeRandom conv i net st))) = False"
  using assms
  by (auto simp: analyzeRandom_def Let_def clearError_def showError_def
      split: fetch_outcome.splits body.splits sum.splits if_splits)

lemma analyze_rejects_only_when_normalizer_throws:
  assumes "fst (analyzeRandom conv i net st) \<noteq> Fulfilled"
  shows "\<exists>status data e. net = Response status (Json data) \<and> ok status \<and>
           fst (normalizeHfResponse conv data) = Inl e"
  using assms
  by (auto simp: analyzeRandom_def Let_def clearError_def showError_def
      split: fetch_outcome.splits body.splits sum.splits if_splits)

text \<open>
  C9. The busy marker is left set by a call on a loaded store whose response has a
  success status and a JSON body with a \<^verbatim>\<open>null\<close> among two or more candidates: the
  normalizer throws, nothing catches the exception, the promise of \<^verbatim>\<open>analyzeRandom\<close> is
  rejected, and the statement that clears the marker is never reached.
\<close>

theorem analyze_leaves_busy_marker_set:
  assumes "loaded st" and "reviews st \<noteq> []"
    and "candidates_of data = Some (sh, cs)" and "2 \<le> length cs" and "JNull \<in> set cs"
  shows "fst (analyzeRandom conv i (Response 200 (Json data)) st) = Rejected TypeError \<and>
         analyze_busy (snd (snd (analyzeRandom conv i (Response 200 (Json data)) st))) = True"
  using assms(1,2) normalize_throws [OF assms(3,4,5), of conv]
  by (simp add: analyzeRandom_def Let_def clearError_def ok_def renderSentiment_def)

theorem analyze_leaves_busy_marker_set_witness:
  "fst (analyzeRandom no_conv 0 (Response 200 (Json (JArr [JArr [JNull, JNull]]))) loaded_page) =
     Rejected TypeError \<and>
   analyze_busy (snd (snd (analyzeRandom no_conv 0
                   (Response 200 (Json (JArr [JArr [JNull, JNull]]))) loaded_page))) = True"
  using analyze_leaves_busy_marker_set
          [of loaded_page "JArr [JArr [JNull, JNull]]" Nested "[JNull, JNull]" no_conv 0]
  by (simp add: loaded_page_store)

end
